theory Spec2Isabelle
  imports Complex_Main
begin

section \<open>JavaScript numbers\<close>

text \<open>
  Every numeric field of \<^verbatim>\<open>FrameTicker\<close> is a JavaScript \<^verbatim>\<open>number\<close>. The
  model keeps the special values the code relies on (\<^verbatim>\<open>NaN\<close> as the "unbounded"
  sentinel, the infinities that \<^verbatim>\<open>1000 / 0\<close> produces) and takes finite values as exact
  rationals: rounding, overflow to infinity and the sign of zero are not modelled. The
  concrete inputs evaluated below are small integers and quotients on which double
  arithmetic is exact.
\<close>

datatype jsnum = NaN | PosInf | NegInf | Fin rat

fun isNaN :: "jsnum \<Rightarrow> bool" where
  "isNaN NaN = True"
| "isNaN _ = False"

fun js_neg :: "jsnum \<Rightarrow> jsnum" where
  "js_neg NaN = NaN"
| "js_neg PosInf = NegInf"
| "js_neg NegInf = PosInf"
| "js_neg (Fin a) = Fin (- a)"

fun js_add :: "jsnum \<Rightarrow> jsnum \<Rightarrow> jsnum" where
  "js_add NaN _ = NaN"
| "js_add _ NaN = NaN"
| "js_add PosInf NegInf = NaN"
| "js_add NegInf PosInf = NaN"
| "js_add PosInf _ = PosInf"
| "js_add NegInf _ = NegInf"
| "js_add (Fin a) PosInf = PosInf"
| "js_add (Fin a) NegInf = NegInf"
| "js_add (Fin a) (Fin b) = Fin (a + b)"

definition js_sub :: "jsnum \<Rightarrow> jsnum \<Rightarrow> jsnum" where
  "js_sub a b = js_add a (js_neg b)"

fun js_sign :: "jsnum \<Rightarrow> int" where
  "js_sign NaN = 0"
| "js_sign PosInf = 1"
| "js_sign NegInf = - 1"
| "js_sign (Fin a) = (if a < 0 then - 1 else if a = 0 then 0 else 1)"

fun js_mul :: "jsnum \<Rightarrow> jsnum \<Rightarrow> jsnum" where
  "js_mul NaN _ = NaN"
| "js_mul _ NaN = NaN"
| "js_mul (Fin a) (Fin b) = Fin (a * b)"
| "js_mul a b =
     (if js_sign a * js_sign b = 0 then NaN
      else if js_sign a * js_sign b > 0 then PosInf else NegInf)"

fun js_div :: "jsnum \<Rightarrow> jsnum \<Rightarrow> jsnum" where
  "js_div NaN _ = NaN"
| "js_div _ NaN = NaN"
| "js_div (Fin a) (Fin b) =
     (if b = 0 then (if a = 0 then NaN else if a > 0 then PosInf else NegInf)
      else Fin (a / b))"
| "js_div (Fin a) _ = Fin 0"
| "js_div a (Fin b) = (if b < 0 then js_neg a else a)"
| "js_div _ _ = NaN"

text \<open>\<^verbatim>\<open>a >= b\<close> and \<^verbatim>\<open>a <= b\<close>: false as soon as one side is \<^verbatim>\<open>NaN\<close>.\<close>

fun js_ge :: "jsnum \<Rightarrow> jsnum \<Rightarrow> bool" where
  "js_ge NaN _ = False"
| "js_ge _ NaN = False"
| "js_ge PosInf _ = True"
| "js_ge _ NegInf = True"
| "js_ge NegInf _ = False"
| "js_ge (Fin a) PosInf = False"
| "js_ge (Fin a) (Fin b) = (b \<le> a)"

definition js_le :: "jsnum \<Rightarrow> jsnum \<Rightarrow> bool" where
  "js_le a b = js_ge b a"

text \<open>\<^verbatim>\<open>Math.min(a, b)\<close>: \<^verbatim>\<open>NaN\<close> if either argument is.\<close>

fun js_min :: "jsnum \<Rightarrow> jsnum \<Rightarrow> jsnum" where
  "js_min NaN _ = NaN"
| "js_min _ NaN = NaN"
| "js_min a b = (if js_le a b then a else b)"

text \<open>\<^verbatim>\<open>a !== b\<close> on numbers: \<^verbatim>\<open>NaN\<close> differs from everything, itself included.\<close>

definition js_strict_ne :: "jsnum \<Rightarrow> jsnum \<Rightarrow> bool" where
  "js_strict_ne a b = (isNaN a \<or> isNaN b \<or> a \<noteq> b)"

section \<open>Listeners, notifications and the state\<close>

text \<open>
  A listener subscribed to the tick channels is a JavaScript function. The model gives it
  an identity and a script: the calls it makes on the ticker's public interface each time
  it is notified. Listeners of the resume and pause channels are observers, identified by
  a number; being notified is recorded and they make no call of their own.
\<close>

datatype call = CallPause | CallResume | CallDispose | CallSetTimeScale jsnum

type_synonym listener = "nat \<times> call list"

datatype channel = ChResume | ChPause | ChTick | ChTickOncePerFrame

datatype payload = NoArgs | TickArgs jsnum jsnum nat

text \<open>
  The observable history: \<open>Dispatch\<close> is a call of a channel's \<^verbatim>\<open>dispatch\<close>,
  \<open>Notify\<close> the invocation of one subscribed listener, \<open>Callback\<close> the invocation of
  the function passed to \<^verbatim>\<open>updateOnce\<close>.
\<close>

datatype event =
    Dispatch channel payload
  | Notify channel nat payload
  | Callback nat payload

datatype error = TypeError

text \<open>
  One record holds the fields of the \<^verbatim>\<open>FrameTicker\<close> instance (named as in the class,
  without the underscore), the part of the host the class talks to, and the history.

  The host: \<open>pendingFrames\<close> are the handles of the outstanding
  \<^verbatim>\<open>requestAnimationFrame\<close> registrations, \<open>issuedHandles\<close> the number of handles
  issued so far (handles are positive), \<open>clock\<close> the successive readings of
  \<^verbatim>\<open>Date.now()\<close> and \<open>clockReads\<close> how many have been taken.
  \<open>hasClearAnimationFrame\<close> says whether \<^verbatim>\<open>window.clearAnimationFrame\<close> is a function:
  the DOM defines \<^verbatim>\<open>cancelAnimationFrame\<close> only, so it is \<open>False\<close> on a standard
  host; a host that does provide it is taken to cancel the registration.

  Fields that are \<^verbatim>\<open>undefined\<close> before their first assignment
  (\<open>lastTimeUpdated\<close>, \<open>now\<close>, \<open>frameDeltaTime\<close>, \<open>interval\<close>) start as \<open>NaN\<close>,
  which is what \<^verbatim>\<open>undefined\<close> becomes in the arithmetic that reads them.
\<close>

record world =
  isRunning :: bool
  timeScale :: jsnum
  currentTick :: nat
  currentTime :: jsnum
  tickDeltaTime :: jsnum
  minFPS :: jsnum
  maxFPS :: jsnum
  lastTimeUpdated :: jsnum
  minInterval :: jsnum
  maxInterval :: jsnum
  now :: jsnum
  frameDeltaTime :: jsnum
  interval :: jsnum
  onResume :: "nat list"
  onPause :: "nat list"
  onTick :: "listener list"
  onTickOncePerFrame :: "listener list"
  animationFrameHandle :: "nat option"
  pendingFrames :: "nat list"
  issuedHandles :: nat
  hasClearAnimationFrame :: bool
  clock :: "nat \<Rightarrow> int"
  clockReads :: nat
  trace :: "event list"

text \<open>
  How a call ends: it returns, it throws (the fields keep what was assigned before the
  throw), or it is still looping when the fuel given to the catch-up loop is used up.
\<close>

datatype outcome = Returned world | Threw error world | OutOfFuel world

fun state_of :: "outcome \<Rightarrow> world" where
  "state_of (Returned w) = w"
| "state_of (Threw e w) = w"
| "state_of (OutOfFuel w) = w"

fun and_then :: "outcome \<Rightarrow> (world \<Rightarrow> outcome) \<Rightarrow> outcome" where
  "and_then (Returned w) f = f w"
| "and_then (Threw e w) f = Threw e w"
| "and_then (OutOfFuel w) f = OutOfFuel w"

definition record_event :: "event \<Rightarrow> world \<Rightarrow> world" where
  "record_event e w = w\<lparr>trace := trace w @ [e]\<rparr>"

section \<open>The host\<close>

definition getTimer :: "world \<Rightarrow> jsnum \<times> world" where
  "getTimer w = (Fin (of_int (clock w (clockReads w))), w\<lparr>clockReads := Suc (clockReads w)\<rparr>)"

definition requestAnimationFrame :: "world \<Rightarrow> nat \<times> world" where
  "requestAnimationFrame w =
     (Suc (issuedHandles w),
      w\<lparr>pendingFrames := pendingFrames w @ [Suc (issuedHandles w)],
        issuedHandles := Suc (issuedHandles w)\<rparr>)"

definition cancelAnimationFrame :: "nat \<Rightarrow> world \<Rightarrow> world" where
  "cancelAnimationFrame h w = w\<lparr>pendingFrames := removeAll h (pendingFrames w)\<rparr>"

definition clearAnimationFrame :: "nat \<Rightarrow> world \<Rightarrow> outcome" where
  "clearAnimationFrame h w =
     (if hasClearAnimationFrame w then Returned (cancelAnimationFrame h w)
      else Threw TypeError w)"

text \<open>\<^verbatim>\<open>if (this._animationFrameHandle)\<close>: \<^verbatim>\<open>undefined\<close>, \<^verbatim>\<open>null\<close> and 0 are falsy.\<close>

fun truthy :: "nat option \<Rightarrow> bool" where
  "truthy None = False"
| "truthy (Some h) = (h \<noteq> 0)"

section \<open>The notification channels\<close>

text \<open>
  Modelled from the spec: the publish/subscribe channel (the package
  \<^verbatim>\<open>simplesignal\<close>, which is not part of this repository): an ordered collection of
  callbacks with remove-all and a synchronous, in-order dispatch to the subscribers the
  channel has when the dispatch starts.
\<close>

fun run_observers :: "channel \<Rightarrow> nat list \<Rightarrow> world \<Rightarrow> world" where
  "run_observers ch [] w = w"
| "run_observers ch (i # is) w = run_observers ch is (record_event (Notify ch i NoArgs) w)"

definition dispatch_observers :: "channel \<Rightarrow> nat list \<Rightarrow> world \<Rightarrow> world" where
  "dispatch_observers ch ls w = run_observers ch ls (record_event (Dispatch ch NoArgs) w)"

section \<open>The class FrameTicker\<close>

definition currentTimeSeconds :: "world \<Rightarrow> jsnum" where
  "currentTimeSeconds w = js_div (currentTime w) (Fin 1000)"

definition tickDeltaTimeSeconds :: "world \<Rightarrow> jsnum" where
  "tickDeltaTimeSeconds w = js_div (tickDeltaTime w) (Fin 1000)"

definition snapshot :: "world \<Rightarrow> payload" where
  "snapshot w = TickArgs (currentTimeSeconds w) (tickDeltaTimeSeconds w) (currentTick w)"

definition set_timeScale :: "jsnum \<Rightarrow> world \<Rightarrow> world" where
  "set_timeScale v w = (if js_strict_ne (timeScale w) v then w\<lparr>timeScale := v\<rparr> else w)"

text \<open>
  \<^verbatim>\<open>animateOnce\<close> and \<^verbatim>\<open>pause\<close> read the handle (\<open>the\<close>) only under the test
  that has found one.
\<close>

definition animateOnce :: "world \<Rightarrow> outcome" where
  "animateOnce w =
     and_then
       (if truthy (animationFrameHandle w)
        then clearAnimationFrame (the (animationFrameHandle w)) w
        else Returned w)
       (\<lambda>w1. case requestAnimationFrame w1 of
                (h, w2) \<Rightarrow> Returned (w2\<lparr>animationFrameHandle := Some h\<rparr>))"

definition resume :: "world \<Rightarrow> outcome" where
  "resume w =
     (if \<not> isRunning w then
        (case getTimer (w\<lparr>isRunning := True\<rparr>) of
           (t, w1) \<Rightarrow>
             animateOnce
               (dispatch_observers ChResume (onResume w1) (w1\<lparr>lastTimeUpdated := t\<rparr>)))
      else Returned w)"

definition pause :: "world \<Rightarrow> world" where
  "pause w =
     (let w1 = (if isRunning w
                then dispatch_observers ChPause (onPause w) (w\<lparr>isRunning := False\<rparr>)
                else w)
      in if truthy (animationFrameHandle w1)
         then (cancelAnimationFrame (the (animationFrameHandle w1)) w1)
                \<lparr>animationFrameHandle := None\<rparr>
         else w1)"

definition dispose :: "world \<Rightarrow> world" where
  "dispose w = (pause w)\<lparr>onResume := [], onPause := [], onTick := []\<rparr>"

text \<open>
  What a listener does when it is notified: the calls of its script, in order. A call that
  throws ends the listener, and the exception goes on to whoever dispatched.
\<close>

fun run_call :: "call \<Rightarrow> world \<Rightarrow> outcome" where
  "run_call CallPause w = Returned (pause w)"
| "run_call CallResume w = resume w"
| "run_call CallDispose w = Returned (dispose w)"
| "run_call (CallSetTimeScale v) w = Returned (set_timeScale v w)"

fun run_script :: "call list \<Rightarrow> world \<Rightarrow> outcome" where
  "run_script [] w = Returned w"
| "run_script (c # cs) w = and_then (run_call c w) (run_script cs)"

text \<open>
  Modelled from the spec: the dispatch of the package \<^verbatim>\<open>simplesignal\<close> on the two tick
  channels. The listeners subscribed when the dispatch starts are invoked in subscription
  order with the arguments of the dispatch; an exception thrown by one of them ends the
  dispatch.
\<close>

fun notify_all :: "channel \<Rightarrow> payload \<Rightarrow> listener list \<Rightarrow> world \<Rightarrow> outcome" where
  "notify_all ch p [] w = Returned w"
| "notify_all ch p (l # ls) w =
     and_then (run_script (snd l) (record_event (Notify ch (fst l) p) w)) (notify_all ch p ls)"

definition dispatch :: "channel \<Rightarrow> payload \<Rightarrow> listener list \<Rightarrow> world \<Rightarrow> outcome" where
  "dispatch ch p ls w = notify_all ch p ls (record_event (Dispatch ch p) w)"

definition updateOnce :: "listener \<Rightarrow> world \<Rightarrow> outcome" where
  "updateOnce callback w =
     run_script (snd callback) (record_event (Callback (fst callback) (snapshot w)) w)"

definition update :: "jsnum \<Rightarrow> bool \<Rightarrow> world \<Rightarrow> outcome" where
  "update timePassedMS newVisualFrame w =
     (let w1 = w\<lparr>currentTick := Suc (currentTick w),
                 currentTime := js_add (currentTime w) timePassedMS,
                 tickDeltaTime := timePassedMS\<rparr>
      in and_then (dispatch ChTick (snapshot w1) (onTick w1) w1)
           (\<lambda>w2. if newVisualFrame
                  then dispatch ChTickOncePerFrame (snapshot w2) (onTickOncePerFrame w2) w2
                  else Returned w2))"

text \<open>
  The catch-up loop of \<^verbatim>\<open>onFrame\<close>. Nothing in the source bounds its iterations, so
  the model counts them down from a fuel: \<open>OutOfFuel\<close> is a loop that has not finished.
\<close>

fun catch_up :: "nat \<Rightarrow> world \<Rightarrow> outcome" where
  "catch_up 0 w =
     (if js_ge (now w) (js_add (lastTimeUpdated w) (interval w)) then OutOfFuel w
      else Returned w)"
| "catch_up (Suc fuel) w =
     (if js_ge (now w) (js_add (lastTimeUpdated w) (interval w)) then
        and_then
          (update (js_mul (interval w) (timeScale w))
             (js_le (now w) (js_add (lastTimeUpdated w) (js_mul (maxInterval w) (Fin 2)))) w)
          (\<lambda>w1. catch_up fuel
                   (w1\<lparr>lastTimeUpdated := js_add (lastTimeUpdated w1) (interval w1)\<rparr>))
      else Returned w)"

definition onFrame :: "nat \<Rightarrow> world \<Rightarrow> outcome" where
  "onFrame fuel w =
     (case getTimer w of
        (t, w0) \<Rightarrow>
          (let w1 = w0\<lparr>now := t\<rparr>;
               w2 = w1\<lparr>frameDeltaTime := js_sub (now w1) (lastTimeUpdated w1)\<rparr>
           in and_then
                (if isNaN (minInterval w2) \<or> js_ge (frameDeltaTime w2) (minInterval w2) then
                   (if \<not> isNaN (maxInterval w2) then
                      catch_up fuel
                        (w2\<lparr>interval := js_min (frameDeltaTime w2) (maxInterval w2)\<rparr>)
                    else
                      and_then (update (js_mul (frameDeltaTime w2) (timeScale w2)) True w2)
                        (\<lambda>w3. Returned (w3\<lparr>lastTimeUpdated := now w3\<rparr>)))
                 else Returned w2)
                (\<lambda>w4. if isRunning w4 then animateOnce w4 else Returned w4)))"

text \<open>
  The constructor, on a host that has issued no handle and whose clock has not been read.
  The arguments are those of the source, in its order; the defaults of the first two are
  \<open>NaN\<close>, of the third \<open>False\<close>.
\<close>

definition FrameTicker :: "jsnum \<Rightarrow> jsnum \<Rightarrow> bool \<Rightarrow> bool \<Rightarrow> (nat \<Rightarrow> int) \<Rightarrow> outcome" where
  "FrameTicker maxFPS' minFPS' paused hasClear clk =
     (let w = \<lparr>isRunning = False, timeScale = Fin 1, currentTick = 0, currentTime = Fin 0,
                tickDeltaTime = Fin 0, minFPS = minFPS', maxFPS = maxFPS',
                lastTimeUpdated = NaN,
                minInterval = (if isNaN maxFPS' then NaN else js_div (Fin 1000) maxFPS'),
                maxInterval = (if isNaN minFPS' then NaN else js_div (Fin 1000) minFPS'),
                now = NaN, frameDeltaTime = NaN, interval = NaN,
                onResume = [], onPause = [], onTick = [], onTickOncePerFrame = [],
                animationFrameHandle = None,
                pendingFrames = [], issuedHandles = 0, hasClearAnimationFrame = hasClear,
                clock = clk, clockReads = 0, trace = []\<rparr>
      in if \<not> paused then resume w else Returned w)"

section \<open>The life of an instance\<close>

text \<open>
  What can happen to an instance from outside: the calls of its public interface, and the
  host invoking the frame callback. The host removes the oldest outstanding registration,
  if there is one, before it runs the callback; \<open>OpFrame\<close> with nothing outstanding is a
  stale invocation.
\<close>

datatype op = OpResume | OpPause | OpDispose | OpFrame | OpSetTimeScale jsnum | OpUpdateOnce listener

fun step :: "nat \<Rightarrow> op \<Rightarrow> world \<Rightarrow> outcome" where
  "step fuel OpResume w = resume w"
| "step fuel OpPause w = Returned (pause w)"
| "step fuel OpDispose w = Returned (dispose w)"
| "step fuel OpFrame w = onFrame fuel (w\<lparr>pendingFrames := tl (pendingFrames w)\<rparr>)"
| "step fuel (OpSetTimeScale v) w = Returned (set_timeScale v w)"
| "step fuel (OpUpdateOnce cb) w = updateOnce cb w"

text \<open>
  An exception thrown by a call reaches the caller and the instance lives on; a call that
  never returns is the end of the run.
\<close>

fun run :: "nat \<Rightarrow> op list \<Rightarrow> world \<Rightarrow> outcome" where
  "run fuel [] w = Returned w"
| "run fuel (x # xs) w =
     (case step fuel x w of
        Returned w' \<Rightarrow> run fuel xs w'
      | Threw e w' \<Rightarrow> run fuel xs w'
      | OutOfFuel w' \<Rightarrow> OutOfFuel w')"

text \<open>
  A clock that gives the listed readings in order and then keeps giving the last (0 when
  nothing is listed).
\<close>

definition readings :: "int list \<Rightarrow> nat \<Rightarrow> int" where
  "readings xs n = (if n < length xs then xs ! n else if xs = [] then 0 else last xs)"

section \<open>Reading the history and the state\<close>

fun is_dispatch :: "channel \<Rightarrow> event \<Rightarrow> bool" where
  "is_dispatch ch (Dispatch c p) = (c = ch)"
| "is_dispatch ch _ = False"


fun is_callback :: "event \<Rightarrow> bool" where
  "is_callback (Callback i p) = True"
| "is_callback _ = False"

fun returned :: "outcome \<Rightarrow> bool" where
  "returned (Returned w) = True"
| "returned _ = False"

fun spinning :: "outcome \<Rightarrow> bool" where
  "spinning (OutOfFuel w) = True"
| "spinning _ = False"

text \<open>The first three assignments of \<^verbatim>\<open>update\<close>.\<close>

definition ticked :: "jsnum \<Rightarrow> world \<Rightarrow> world" where
  "ticked timePassedMS w =
     w\<lparr>currentTick := Suc (currentTick w),
       currentTime := js_add (currentTime w) timePassedMS,
       tickDeltaTime := timePassedMS\<rparr>"

text \<open>
  \<^verbatim>\<open>resume\<close> reaches \<^verbatim>\<open>window.clearAnimationFrame\<close> only when the instance is paused
  while \<open>animationFrameHandle\<close> still holds a handle. \<^verbatim>\<open>pause\<close> clears the handle, so
  no state the class gets into by itself is like that (\<open>script_safe_reachable\<close> below);
  where it is excluded, no call a listener makes throws.
\<close>

definition script_safe :: "world \<Rightarrow> bool" where
  "script_safe w =
     (isRunning w \<or> \<not> truthy (animationFrameHandle w) \<or> hasClearAnimationFrame w)"

text \<open>What no call of a listener changes.\<close>

definition kept_by_listeners :: "world \<Rightarrow> world \<Rightarrow> bool" where
  "kept_by_listeners w0 w =
     (currentTick w = currentTick w0 \<and> currentTime w = currentTime w0
      \<and> tickDeltaTime w = tickDeltaTime w0 \<and> now w = now w0
      \<and> frameDeltaTime w = frameDeltaTime w0 \<and> interval w = interval w0
      \<and> minInterval w = minInterval w0 \<and> maxInterval w = maxInterval w0
      \<and> onTickOncePerFrame w = onTickOncePerFrame w0
      \<and> hasClearAnimationFrame w = hasClearAnimationFrame w0 \<and> clock w = clock w0)"


text \<open>
  A property of the state that every step of the class keeps, whatever the numbers are:
  the calls of the public interface, the bookkeeping of \<^verbatim>\<open>onFrame\<close> and
  \<^verbatim>\<open>update\<close>, recording a dispatch, and notifying the listeners there are.
\<close>

definition pump_invariant :: "(world \<Rightarrow> bool) \<Rightarrow> bool" where
  "pump_invariant P =
     ((\<forall>c x. P x \<longrightarrow> P (state_of (run_call c x)))
      \<and> (\<forall>x. P x \<longrightarrow> isRunning x \<longrightarrow> P (state_of (animateOnce x)))
      \<and> (\<forall>x ch p. P x \<longrightarrow> P (record_event (Dispatch ch p) x))
      \<and> (\<forall>x i p. P x \<longrightarrow> P (record_event (Callback i p) x))
      \<and> (\<forall>x i p. P x \<longrightarrow> P (record_event (Notify ChTickOncePerFrame i p) x))
      \<and> (\<forall>x y l p. P x \<longrightarrow> l \<in> set (onTick x) \<longrightarrow> P y \<longrightarrow>
            P (record_event (Notify ChTick (fst l) p) y))
      \<and> (\<forall>x tp. P x \<longrightarrow> P (ticked tp x))
      \<and> (\<forall>x a b c. P x \<longrightarrow> P (x\<lparr>clockReads := a, now := b, frameDeltaTime := c\<rparr>))
      \<and> (\<forall>x a. P x \<longrightarrow> P (x\<lparr>interval := a\<rparr>))
      \<and> (\<forall>x a. P x \<longrightarrow> P (x\<lparr>lastTimeUpdated := a\<rparr>))
      \<and> (\<forall>x a. P x \<longrightarrow> P (x\<lparr>pendingFrames := a\<rparr>)))"












text \<open>
  The conditions under which the accumulated time cannot go back. Of the numbers: the
  time scale is finite and not negative, and so is every value assigned to it;
  \<open>maxInterval\<close> is unbounded or not negative. Of the clock: it never runs backwards,
  and \<open>lastTimeUpdated\<close> is a time it has reached (the instance has been resumed once).
  Of the tick listeners: they do not call \<^verbatim>\<open>resume()\<close>, which would move
  \<open>lastTimeUpdated\<close> in the middle of a burst. The callback of \<^verbatim>\<open>updateOnce\<close> may.
\<close>

fun is_finite :: "jsnum \<Rightarrow> bool" where
  "is_finite (Fin a) = True"
| "is_finite _ = False"

fun finite_nonneg :: "jsnum \<Rightarrow> bool" where
  "finite_nonneg (Fin a) = (0 \<le> a)"
| "finite_nonneg _ = False"

fun calm_call :: "call \<Rightarrow> bool" where
  "calm_call (CallSetTimeScale v) = finite_nonneg v"
| "calm_call _ = True"

fun tame_call :: "call \<Rightarrow> bool" where
  "tame_call CallResume = False"
| "tame_call c = calm_call c"

definition tame_listener :: "listener \<Rightarrow> bool" where
  "tame_listener l = list_all tame_call (snd l)"


definition steady :: "world \<Rightarrow> bool" where
  "steady w =
     (is_finite (currentTime w)
      \<and> finite_nonneg (timeScale w)
      \<and> is_finite (lastTimeUpdated w)
      \<and> (\<forall>j\<ge>clockReads w. js_le (lastTimeUpdated w) (Fin (of_int (clock w j))))
      \<and> (\<forall>i j. clockReads w \<le> i \<longrightarrow> i \<le> j \<longrightarrow> clock w i \<le> clock w j)
      \<and> (isNaN (maxInterval w) \<or> js_ge (maxInterval w) (Fin 0))
      \<and> list_all tame_listener (onTick w)
      \<and> list_all tame_listener (onTickOncePerFrame w))"



section \<open>Instances to evaluate\<close>





section \<open>What listeners can and cannot do\<close>

lemma run_observers_eq:
  "run_observers ch ls w = w\<lparr>trace := trace w @ map (\<lambda>i. Notify ch i NoArgs) ls\<rparr>"
  by (induction ls arbitrary: w) (simp_all add: record_event_def)

lemmas ticker_defs =
  pause_def resume_def dispose_def set_timeScale_def animateOnce_def getTimer_def
  dispatch_observers_def run_observers_eq record_event_def clearAnimationFrame_def
  cancelAnimationFrame_def requestAnimationFrame_def

lemma filter_notify_map [simp]:
  "filter (is_dispatch ch) (map (\<lambda>i. Notify c i p) ls) = []"
  "filter is_callback (map (\<lambda>i. Notify c i p) ls) = []"
  by (induction ls) simp_all

lemma state_of_and_then_inv:
  assumes "P (state_of x)" and "\<And>w. x = Returned w \<Longrightarrow> P (state_of (f w))"
  shows "P (state_of (and_then x f))"
  using assms by (cases x) simp_all

lemma run_script_preserves:
  assumes call: "\<And>c w. P w \<Longrightarrow> P (state_of (run_call c w))"
  shows "P w \<Longrightarrow> P (state_of (run_script cs w))"
proof (induction cs arbitrary: w)
  case Nil
  then show ?case by simp
next
  case (Cons c cs)
  from Cons.prems have p: "P (state_of (run_call c w))" by (rule call)
  show ?case
  proof (cases "run_call c w")
    case (Returned w1)
    with p Cons.IH show ?thesis by simp
  next
    case (Threw e w1)
    with p show ?thesis by simp
  next
    case (OutOfFuel w1)
    with p show ?thesis by simp
  qed
qed




lemma notify_all_inv:
  assumes "\<And>l w. l \<in> set ls \<Longrightarrow> P w \<Longrightarrow>
      P (state_of (run_script (snd l) (record_event (Notify ch (fst l) p) w)))"
  shows "P w \<Longrightarrow> P (state_of (notify_all ch p ls w))"
  using assms
proof (induction ls arbitrary: w)
  case Nil
  then show ?case by simp
next
  case (Cons l ls)
  have here: "P (state_of (run_script (snd l) (record_event (Notify ch (fst l) p) w)))"
    by (rule Cons.prems(2)) (simp_all add: Cons.prems(1))
  have rest: "\<And>w1. P w1 \<Longrightarrow> P (state_of (notify_all ch p ls w1))"
    by (rule Cons.IH) (simp_all add: Cons.prems(2))
  show ?case
    unfolding notify_all.simps
  proof (rule state_of_and_then_inv)
    show "P (state_of (run_script (snd l) (record_event (Notify ch (fst l) p) w)))"
      by (rule here)
  next
    fix w1 assume "run_script (snd l) (record_event (Notify ch (fst l) p) w) = Returned w1"
    with here have "P w1" by simp
    then show "P (state_of (notify_all ch p ls w1))" by (rule rest)
  qed
qed

lemma update_inv:
  assumes t: "P (ticked tp w)"
    and d1: "\<And>x. P x \<Longrightarrow> P (record_event (Dispatch ChTick (snapshot (ticked tp w))) x)"
    and n1: "\<And>l x. l \<in> set (onTick w) \<Longrightarrow> P x \<Longrightarrow>
       P (state_of (run_script (snd l)
            (record_event (Notify ChTick (fst l) (snapshot (ticked tp w))) x)))"
    and d2: "\<And>x p. P x \<Longrightarrow> P (record_event (Dispatch ChTickOncePerFrame p) x)"
    and n2: "\<And>l x y p. P y \<Longrightarrow> l \<in> set (onTickOncePerFrame y) \<Longrightarrow> P x \<Longrightarrow>
       P (state_of (run_script (snd l) (record_event (Notify ChTickOncePerFrame (fst l) p) x)))"
  shows "P (state_of (update tp flag w))"
proof -
  let ?w1 = "ticked tp w"
  have l1: "onTick ?w1 = onTick w" by (simp add: ticked_def)
  have first: "P (state_of (dispatch ChTick (snapshot ?w1) (onTick ?w1) ?w1))"
    unfolding dispatch_def l1
  proof (rule notify_all_inv [of _ P])
    show "\<And>l x. l \<in> set (onTick w) \<Longrightarrow> P x \<Longrightarrow>
       P (state_of (run_script (snd l) (record_event (Notify ChTick (fst l) (snapshot ?w1)) x)))"
      by (rule n1)
    show "P (record_event (Dispatch ChTick (snapshot ?w1)) ?w1)"
      by (rule d1 [OF t])
  qed
  have second: "P (state_of (dispatch ChTickOncePerFrame (snapshot w2) (onTickOncePerFrame w2) w2))"
    if w2: "P w2" for w2
    unfolding dispatch_def
  proof (rule notify_all_inv [of _ P])
    show "\<And>l x. l \<in> set (onTickOncePerFrame w2) \<Longrightarrow> P x \<Longrightarrow>
       P (state_of (run_script (snd l)
            (record_event (Notify ChTickOncePerFrame (fst l) (snapshot w2)) x)))"
      by (rule n2 [OF w2])
    show "P (record_event (Dispatch ChTickOncePerFrame (snapshot w2)) w2)"
      by (rule d2 [OF w2])
  qed
  have "update tp flag w =
      and_then (dispatch ChTick (snapshot ?w1) (onTick ?w1) ?w1)
        (\<lambda>w2. if flag
               then dispatch ChTickOncePerFrame (snapshot w2) (onTickOncePerFrame w2) w2
               else Returned w2)"
    by (simp add: update_def ticked_def Let_def)
  moreover have "P (state_of (and_then (dispatch ChTick (snapshot ?w1) (onTick ?w1) ?w1)
        (\<lambda>w2. if flag
               then dispatch ChTickOncePerFrame (snapshot w2) (onTickOncePerFrame w2) w2
               else Returned w2)))"
  proof (rule state_of_and_then_inv)
    show "P (state_of (dispatch ChTick (snapshot ?w1) (onTick ?w1) ?w1))" by (rule first)
  next
    fix w2 assume r: "dispatch ChTick (snapshot ?w1) (onTick ?w1) ?w1 = Returned w2"
    with first have "P w2" by simp
    then show "P (state_of (if flag
          then dispatch ChTickOncePerFrame (snapshot w2) (onTickOncePerFrame w2) w2
          else Returned w2))"
      using second by simp
  qed
  ultimately show ?thesis by simp
qed

lemma run_inv:
  assumes "\<And>x w. P w \<Longrightarrow> P (state_of (step fuel x w))"
  shows "P w \<Longrightarrow> P (state_of (run fuel ops w))"
proof (induction ops arbitrary: w)
  case Nil
  then show ?case by simp
next
  case (Cons x xs)
  have "P (state_of (step fuel x w))" by (rule assms [OF Cons.prems])
  with Cons.IH show ?case by (cases "step fuel x w") simp_all
qed

lemma run_call_kept: "kept_by_listeners w0 w \<Longrightarrow> kept_by_listeners w0 (state_of (run_call c w))"
  by (cases c) (simp_all add: kept_by_listeners_def ticker_defs Let_def)

lemma run_call_callbacks:
  "filter is_callback (trace w) = es \<Longrightarrow> filter is_callback (trace (state_of (run_call c w))) = es"
  by (cases c) (simp_all add: ticker_defs Let_def)

lemma run_call_tick_dispatches:
  "ch = ChTick \<or> ch = ChTickOncePerFrame \<Longrightarrow> filter (is_dispatch ch) (trace w) = es \<Longrightarrow>
   filter (is_dispatch ch) (trace (state_of (run_call c w))) = es"
  by (cases c) (auto simp add: ticker_defs Let_def)

lemma run_call_safe:
  "script_safe w \<Longrightarrow> returned (run_call c w) \<and> script_safe (state_of (run_call c w))"
  by (cases c) (auto simp add: script_safe_def ticker_defs Let_def)

lemma run_script_kept:
  "kept_by_listeners w0 w \<Longrightarrow> kept_by_listeners w0 (state_of (run_script cs w))"
  by (rule run_script_preserves [of "kept_by_listeners w0"]) (rule run_call_kept)

lemma run_script_callbacks:
  "filter is_callback (trace w) = es \<Longrightarrow>
   filter is_callback (trace (state_of (run_script cs w))) = es"
  by (rule run_script_preserves [of "\<lambda>x. filter is_callback (trace x) = es"])
     (rule run_call_callbacks)

lemma run_script_tick_dispatches:
  "ch = ChTick \<or> ch = ChTickOncePerFrame \<Longrightarrow> filter (is_dispatch ch) (trace w) = es \<Longrightarrow>
   filter (is_dispatch ch) (trace (state_of (run_script cs w))) = es"
  by (rule run_script_preserves [of "\<lambda>x. filter (is_dispatch ch) (trace x) = es"])
     (rule run_call_tick_dispatches)










lemma animateOnce_not_spinning: "\<not> spinning (animateOnce w)"
  by (simp add: ticker_defs)

section \<open>Properties every step keeps\<close>

lemma pump_invariantD:
  assumes inv: "pump_invariant P" and x: "P x"
  shows "P (state_of (run_call c x))"
    and "isRunning x \<Longrightarrow> P (state_of (animateOnce x))"
    and "P (record_event (Dispatch ch p) x)"
    and "P (record_event (Callback i p) x)"
    and "P (record_event (Notify ChTickOncePerFrame i p) x)"
    and "P (ticked tp x)"
    and "P (x\<lparr>clockReads := a, now := b, frameDeltaTime := d\<rparr>)"
    and "P (x\<lparr>interval := b\<rparr>)"
    and "P (x\<lparr>lastTimeUpdated := b\<rparr>)"
    and "P (x\<lparr>pendingFrames := e\<rparr>)"
proof -
  note i = inv [unfolded pump_invariant_def]
  note r = conjunct2
  show "P (state_of (run_call c x))"
    by (rule i [THEN conjunct1, rule_format, OF x])
  show "isRunning x \<Longrightarrow> P (state_of (animateOnce x))"
    by (rule i [THEN r, THEN conjunct1, rule_format, OF x])
  show "P (record_event (Dispatch ch p) x)"
    by (rule i [THEN r, THEN r, THEN conjunct1, rule_format, OF x])
  show "P (record_event (Callback i p) x)"
    by (rule i [THEN r, THEN r, THEN r, THEN conjunct1, rule_format, OF x])
  show "P (record_event (Notify ChTickOncePerFrame i p) x)"
    by (rule i [THEN r, THEN r, THEN r, THEN r, THEN conjunct1, rule_format, OF x])
  show "P (ticked tp x)"
    by (rule i [THEN r, THEN r, THEN r, THEN r, THEN r, THEN r, THEN conjunct1, rule_format, OF x])
  show "P (x\<lparr>clockReads := a, now := b, frameDeltaTime := d\<rparr>)"
    by (rule i [THEN r, THEN r, THEN r, THEN r, THEN r, THEN r, THEN r, THEN conjunct1,
          rule_format, OF x])
  show "P (x\<lparr>interval := b\<rparr>)"
    by (rule i [THEN r, THEN r, THEN r, THEN r, THEN r, THEN r, THEN r, THEN r, THEN conjunct1,
          rule_format, OF x])
  show "P (x\<lparr>lastTimeUpdated := b\<rparr>)"
    by (rule i [THEN r, THEN r, THEN r, THEN r, THEN r, THEN r, THEN r, THEN r, THEN r,
          THEN conjunct1, rule_format, OF x])
  show "P (x\<lparr>pendingFrames := e\<rparr>)"
    by (rule i [THEN r, THEN r, THEN r, THEN r, THEN r, THEN r, THEN r, THEN r, THEN r, THEN r,
          rule_format, OF x])
qed

lemma pump_invariant_notify:
  assumes inv: "pump_invariant P" and "P x" and "l \<in> set (onTick x)" and "P y"
  shows "P (record_event (Notify ChTick (fst l) p) y)"
  by (rule inv [unfolded pump_invariant_def, THEN conjunct2, THEN conjunct2, THEN conjunct2,
        THEN conjunct2, THEN conjunct2, THEN conjunct1, rule_format, OF assms(2-4)])

lemma update_pump_invariant:
  assumes inv: "pump_invariant P" and w: "P w"
  shows "P (state_of (update tp flag w))"
proof (rule update_inv [of P])
  show "P (ticked tp w)" by (rule pump_invariantD(6) [OF inv w])
  show "\<And>x. P x \<Longrightarrow> P (record_event (Dispatch ChTick (snapshot (ticked tp w))) x)"
    by (rule pump_invariantD(3) [OF inv])
  show "\<And>x p. P x \<Longrightarrow> P (record_event (Dispatch ChTickOncePerFrame p) x)"
    by (rule pump_invariantD(3) [OF inv])
  show "P (state_of (run_script (snd l)
        (record_event (Notify ChTick (fst l) (snapshot (ticked tp w))) x)))"
    if "l \<in> set (onTick w)" "P x" for l x
  proof (rule run_script_preserves [of P])
    show "\<And>c u. P u \<Longrightarrow> P (state_of (run_call c u))"
      by (rule pump_invariantD(1) [OF inv])
    show "P (record_event (Notify ChTick (fst l) (snapshot (ticked tp w))) x)"
      by (rule pump_invariant_notify [OF inv w that])
  qed
  show "P (state_of (run_script (snd l) (record_event (Notify ChTickOncePerFrame (fst l) p) x)))"
    if "P x" for l x p
  proof (rule run_script_preserves [of P])
    show "\<And>c u. P u \<Longrightarrow> P (state_of (run_call c u))"
      by (rule pump_invariantD(1) [OF inv])
    show "P (record_event (Notify ChTickOncePerFrame (fst l) p) x)"
      by (rule pump_invariantD(5) [OF inv that])
  qed
qed

lemma catch_up_pump_invariant:
  assumes inv: "pump_invariant P"
  shows "P w \<Longrightarrow> P (state_of (catch_up fuel w))"
proof (induction fuel arbitrary: w)
  case 0
  then show ?case by simp
next
  case (Suc fuel)
  define tp where "tp = js_mul (interval w) (timeScale w)"
  define flag where
    "flag = js_le (now w) (js_add (lastTimeUpdated w) (js_mul (maxInterval w) (Fin 2)))"
  have u: "P (state_of (update tp flag w))"
    by (rule update_pump_invariant [OF inv Suc.prems])
  have "P (state_of (and_then (update tp flag w)
      (\<lambda>w1. catch_up fuel (w1\<lparr>lastTimeUpdated := js_add (lastTimeUpdated w1) (interval w1)\<rparr>))))"
  proof (rule state_of_and_then_inv [of P])
    show "P (state_of (update tp flag w))" by (rule u)
  next
    fix w1 assume "update tp flag w = Returned w1"
    with u have "P w1" by simp
    then have "P (w1\<lparr>lastTimeUpdated := js_add (lastTimeUpdated w1) (interval w1)\<rparr>)"
      by (rule pump_invariantD(9) [OF inv])
    then show "P (state_of (catch_up fuel
        (w1\<lparr>lastTimeUpdated := js_add (lastTimeUpdated w1) (interval w1)\<rparr>)))"
      by (rule Suc.IH)
  qed
  with Suc.prems show ?case by (simp add: tp_def flag_def)
qed

lemma onFrame_pump_invariant:
  assumes inv: "pump_invariant P" and w: "P w"
  shows "P (state_of (onFrame fuel w))"
proof -
  define w2 where "w2 = w\<lparr>clockReads := Suc (clockReads w),
      now := Fin (of_int (clock w (clockReads w))),
      frameDeltaTime := js_sub (Fin (of_int (clock w (clockReads w)))) (lastTimeUpdated w)\<rparr>"
  define body where "body =
     (if isNaN (minInterval w2) \<or> js_ge (frameDeltaTime w2) (minInterval w2) then
        (if \<not> isNaN (maxInterval w2) then
           catch_up fuel (w2\<lparr>interval := js_min (frameDeltaTime w2) (maxInterval w2)\<rparr>)
         else
           and_then (update (js_mul (frameDeltaTime w2) (timeScale w2)) True w2)
             (\<lambda>w3. Returned (w3\<lparr>lastTimeUpdated := now w3\<rparr>)))
      else Returned w2)"
  have frame: "onFrame fuel w =
      and_then body (\<lambda>w4. if isRunning w4 then animateOnce w4 else Returned w4)"
    by (simp add: onFrame_def getTimer_def Let_def body_def w2_def)
  have w2: "P w2" unfolding w2_def by (rule pump_invariantD(7) [OF inv w])
  then have "P (w2\<lparr>interval := js_min (frameDeltaTime w2) (maxInterval w2)\<rparr>)"
    by (rule pump_invariantD(8) [OF inv])
  then have burst: "P (state_of (catch_up fuel
      (w2\<lparr>interval := js_min (frameDeltaTime w2) (maxInterval w2)\<rparr>)))"
    by (rule catch_up_pump_invariant [OF inv])
  have u: "P (state_of (update (js_mul (frameDeltaTime w2) (timeScale w2)) True w2))"
    by (rule update_pump_invariant [OF inv w2])
  have single: "P (state_of
      (and_then (update (js_mul (frameDeltaTime w2) (timeScale w2)) True w2)
         (\<lambda>w3. Returned (w3\<lparr>lastTimeUpdated := now w3\<rparr>))))"
  proof (rule state_of_and_then_inv [of P])
    show "P (state_of (update (js_mul (frameDeltaTime w2) (timeScale w2)) True w2))" by (rule u)
  next
    fix w3 assume "update (js_mul (frameDeltaTime w2) (timeScale w2)) True w2 = Returned w3"
    with u have "P w3" by simp
    then have "P (w3\<lparr>lastTimeUpdated := now w3\<rparr>)" by (rule pump_invariantD(9) [OF inv])
    then show "P (state_of (Returned (w3\<lparr>lastTimeUpdated := now w3\<rparr>)))" by simp
  qed
  have body: "P (state_of body)"
    using w2 burst single by (simp add: body_def)
  show ?thesis
    unfolding frame
  proof (rule state_of_and_then_inv [of P])
    show "P (state_of body)" by (rule body)
  next
    fix w4 assume "body = Returned w4"
    with body have "P w4" by simp
    then show "P (state_of (if isRunning w4 then animateOnce w4 else Returned w4))"
      using pump_invariantD(2) [OF inv, of w4] by simp
  qed
qed

lemma step_pump_invariant:
  assumes inv: "pump_invariant P" and w: "P w"
  shows "P (state_of (step fuel x w))"
proof (cases x)
  case OpFrame
  have "P (w\<lparr>pendingFrames := tl (pendingFrames w)\<rparr>)"
    by (rule pump_invariantD(10) [OF inv w])
  then show ?thesis using OpFrame by (simp add: onFrame_pump_invariant [OF inv])
next
  case (OpUpdateOnce cb)
  have "P (state_of (run_script (snd cb) (record_event (Callback (fst cb) (snapshot w)) w)))"
  proof (rule run_script_preserves [of P])
    show "\<And>c u. P u \<Longrightarrow> P (state_of (run_call c u))"
      by (rule pump_invariantD(1) [OF inv])
    show "P (record_event (Callback (fst cb) (snapshot w)) w)"
      by (rule pump_invariantD(4) [OF inv w])
  qed
  then show ?thesis using OpUpdateOnce by (simp add: updateOnce_def)
next
  case OpResume
  have "P (state_of (run_call CallResume w))" by (rule pump_invariantD(1) [OF inv w])
  then show ?thesis using OpResume by simp
next
  case OpPause
  have "P (state_of (run_call CallPause w))" by (rule pump_invariantD(1) [OF inv w])
  then show ?thesis using OpPause by simp
next
  case OpDispose
  have "P (state_of (run_call CallDispose w))" by (rule pump_invariantD(1) [OF inv w])
  then show ?thesis using OpDispose by simp
next
  case (OpSetTimeScale v)
  have "P (state_of (run_call (CallSetTimeScale v) w))"
    by (rule pump_invariantD(1) [OF inv w])
  then show ?thesis using OpSetTimeScale by simp
qed

lemma run_pump_invariant:
  assumes inv: "pump_invariant P" and w: "P w"
  shows "P (state_of (run fuel ops w))"
  by (rule run_inv [of P]) (simp_all add: step_pump_invariant [OF inv] w)


lemma script_safe_invariant: "pump_invariant script_safe"
  unfolding pump_invariant_def
proof (intro conjI allI impI)
  show "script_safe (state_of (run_call c x))" if "script_safe x" for c x
    using run_call_safe [OF that, of c] by simp
  show "\<And>x. script_safe x \<Longrightarrow> isRunning x \<Longrightarrow> script_safe (state_of (animateOnce x))"
    by (simp add: script_safe_def ticker_defs)
qed (simp_all add: script_safe_def record_event_def ticked_def)

lemma script_safe_constructed: "script_safe (state_of (FrameTicker a b paused h clk))"
  by (simp add: FrameTicker_def script_safe_def ticker_defs Let_def)

lemma script_safe_reachable:
  "script_safe (state_of (run fuel ops (state_of (FrameTicker a b paused h clk))))"
  by (rule run_pump_invariant [OF script_safe_invariant script_safe_constructed])

section \<open>The catch-up burst at a concrete frame\<close>

text \<open>
  C1. The claim: in a catch-up burst a tick also fires the once-per-frame channel exactly
  when \<open>now \<le> lastTimeUpdated + 2 * maxInterval\<close> at its dispatch, and so only the last
  tick of the burst does. The first half is the test the loop makes; the conclusion fails
  when the frame's delay is a multiple of \<open>maxInterval\<close>, where the test with \<open>\<le>\<close>
  also holds for the tick before the last. Here: \<^verbatim>\<open>new FrameTicker(NaN, 100)\<close> (so
  \<open>maxInterval\<close> is 10 ms) created at time 0, and one frame at time 20: the burst has
  two ticks and both are dispatched on the once-per-frame channel.
\<close>

theorem C1_both_ticks_of_burst_fire_once_per_frame:
  "trace (state_of (step 5 OpFrame
      (state_of (FrameTicker NaN (Fin 100) False False (readings [0, 20]))))) =
   [Dispatch ChResume NoArgs,
    Dispatch ChTick (TickArgs (Fin (1 / 100)) (Fin (1 / 100)) 1),
    Dispatch ChTickOncePerFrame (TickArgs (Fin (1 / 100)) (Fin (1 / 100)) 1),
    Dispatch ChTick (TickArgs (Fin (1 / 50)) (Fin (1 / 100)) 2),
    Dispatch ChTickOncePerFrame (TickArgs (Fin (1 / 50)) (Fin (1 / 100)) 2)]"
  by code_simp


text \<open>
  A skipped frame on a host where the call of \<^verbatim>\<open>window.clearAnimationFrame\<close> does
  not throw (the host provides it, or no handle is held): nothing changes but the three
  fields the handler always writes, and the next frame is registered.
\<close>

lemma skipped_frame_registers_where_it_can:
  assumes gate: "\<not> isNaN (minInterval w)"
      "\<not> js_ge (js_sub (Fin (of_int (clock w (clockReads w)))) (lastTimeUpdated w)) (minInterval w)"
    and running: "isRunning w"
    and host: "hasClearAnimationFrame w \<or> \<not> truthy (animationFrameHandle w)"
  shows "onFrame fuel w =
     Returned (w\<lparr>clockReads := Suc (clockReads w),
        now := Fin (of_int (clock w (clockReads w))),
        frameDeltaTime := js_sub (Fin (of_int (clock w (clockReads w)))) (lastTimeUpdated w),
        pendingFrames :=
          (if truthy (animationFrameHandle w)
           then removeAll (the (animationFrameHandle w)) (pendingFrames w)
           else pendingFrames w) @ [Suc (issuedHandles w)],
        issuedHandles := Suc (issuedHandles w),
        animationFrameHandle := Some (Suc (issuedHandles w))\<rparr>)"
  using assms by (auto simp add: onFrame_def Let_def ticker_defs)

text \<open>
  C5. The claim: a frame that arrives sooner than \<open>minInterval\<close> after the last update
  dispatches no tick, leaves the counters and \<open>lastTimeUpdated\<close> alone, and still
  registers for the next frame while the instance runs. The registration goes through
  \<^verbatim>\<open>animateOnce\<close>, which first calls \<^verbatim>\<open>window.clearAnimationFrame\<close> on the handle of
  the frame being processed; \<^verbatim>\<open>pause\<close> calls \<^verbatim>\<open>window.cancelAnimationFrame\<close>, the name
  the DOM defines. Here, on a standard host: \<^verbatim>\<open>new FrameTicker(10)\<close> (so \<open>minInterval\<close>
  is 100 ms) created at time 0 and one frame at time 5. No tick is dispatched and the
  counters are unchanged, but the call ends in a TypeError and nothing is registered.
\<close>

theorem C5_skipped_frame_throws_and_registers_nothing:
  "(case step 5 OpFrame (state_of (FrameTicker (Fin 10) NaN False False (readings [0, 5]))) of
      Threw e w \<Rightarrow>
        e = TypeError \<and> isRunning w \<and> pendingFrames w = [] \<and> currentTick w = 0
        \<and> currentTime w = Fin 0 \<and> tickDeltaTime w = Fin 0 \<and> lastTimeUpdated w = Fin 0
        \<and> trace w = [Dispatch ChResume NoArgs]
    | Returned w \<Rightarrow> False
    | OutOfFuel w \<Rightarrow> False)"
  by code_simp

section \<open>A frame without a minimum rate\<close>



section \<open>The catch-up loop ends\<close>












section \<open>The time scale changes the times only\<close>














section \<open>The counters over the life of an instance\<close>





















lemma steady_constructed:
  assumes "\<forall>i j. i \<le> j \<longrightarrow> clk i \<le> clk j"
    and "isNaN b \<or> js_ge (js_div (Fin 1000) b) (Fin 0)"
  shows "steady (state_of (FrameTicker a b False h clk))"
  using assms
  by (auto simp add: steady_def FrameTicker_def ticker_defs Let_def js_le_def)




section \<open>After dispose\<close>





section \<open>updateOnce\<close>

text \<open>
  C9. In every state, \<^verbatim>\<open>updateOnce(callback)\<close> invokes the callback exactly once, with
  the snapshot (\<open>currentTimeSeconds\<close>, \<open>tickDeltaTimeSeconds\<close>, \<open>currentTick\<close>) of the
  state it is called in; \<open>currentTick\<close>, \<open>currentTime\<close> and \<open>tickDeltaTime\<close> are
  unchanged and nothing is dispatched on the tick channels, whatever the callback itself
  calls; and with a callback that calls nothing, the invocation is the whole effect.
\<close>

theorem C9_updateOnce:
  "currentTick (state_of (updateOnce cb w)) = currentTick w
   \<and> currentTime (state_of (updateOnce cb w)) = currentTime w
   \<and> tickDeltaTime (state_of (updateOnce cb w)) = tickDeltaTime w
   \<and> filter is_callback (trace (state_of (updateOnce cb w))) =
       filter is_callback (trace w) @
         [Callback (fst cb) (TickArgs (currentTimeSeconds w) (tickDeltaTimeSeconds w) (currentTick w))]
   \<and> filter (is_dispatch ChTick) (trace (state_of (updateOnce cb w))) =
       filter (is_dispatch ChTick) (trace w)
   \<and> filter (is_dispatch ChTickOncePerFrame) (trace (state_of (updateOnce cb w))) =
       filter (is_dispatch ChTickOncePerFrame) (trace w)
   \<and> updateOnce (i, []) w =
       Returned (w\<lparr>trace := trace w @
         [Callback i (TickArgs (currentTimeSeconds w) (tickDeltaTimeSeconds w) (currentTick w))]\<rparr>)"
proof -
  let ?w1 = "record_event (Callback (fst cb) (snapshot w)) w"
  have "kept_by_listeners w ?w1"
    by (simp add: kept_by_listeners_def record_event_def)
  then have k: "kept_by_listeners w (state_of (run_script (snd cb) ?w1))"
    by (rule run_script_kept)
  have c: "filter is_callback (trace (state_of (run_script (snd cb) ?w1))) =
      filter is_callback (trace w) @ [Callback (fst cb) (snapshot w)]"
    by (rule run_script_callbacks) (simp add: record_event_def)
  have d1: "filter (is_dispatch ChTick) (trace (state_of (run_script (snd cb) ?w1))) =
      filter (is_dispatch ChTick) (trace w)"
    by (rule run_script_tick_dispatches) (simp_all add: record_event_def)
  have d2: "filter (is_dispatch ChTickOncePerFrame) (trace (state_of (run_script (snd cb) ?w1))) =
      filter (is_dispatch ChTickOncePerFrame) (trace w)"
    by (rule run_script_tick_dispatches) (simp_all add: record_event_def)
  from k c d1 d2 show ?thesis
    by (simp add: updateOnce_def kept_by_listeners_def snapshot_def record_event_def)
qed

section \<open>resume after dispose\<close>

text \<open>
  C10. \<^verbatim>\<open>resume()\<close> after \<^verbatim>\<open>dispose()\<close> is not guarded: it returns, having set
  \<open>isRunning\<close>, recorded the reading of the clock as \<open>lastTimeUpdated\<close>, dispatched
  on the resume channel (which is empty, so nobody is notified) and registered a new frame
  request, whose handle it keeps. The state is the one \<^verbatim>\<open>resume()\<close> after
  \<^verbatim>\<open>pause()\<close> leads to, but for the three emptied channels and the notifications their
  listeners would have received.
\<close>

theorem C10_resume_after_dispose:
  "resume (dispose w) =
     Returned ((dispose w)
       \<lparr>isRunning := True,
        lastTimeUpdated := Fin (of_int (clock w (clockReads w))),
        clockReads := Suc (clockReads w),
        trace := trace (dispose w) @ [Dispatch ChResume NoArgs],
        pendingFrames := pendingFrames (dispose w) @ [Suc (issuedHandles w)],
        issuedHandles := Suc (issuedHandles w),
        animationFrameHandle := Some (Suc (issuedHandles w))\<rparr>)
   \<and> onResume (dispose w) = [] \<and> onPause (dispose w) = [] \<and> onTick (dispose w) = []
   \<and> resume (dispose w) =
       Returned ((state_of (resume (pause w)))
         \<lparr>onResume := [], onPause := [], onTick := [],
          trace := trace (pause w) @ [Dispatch ChResume NoArgs]\<rparr>)"
  by (simp add: ticker_defs Let_def)

end
